theory Spec2Isabelle
  imports Complex_Main "HOL-Library.Sublist"
begin

section \<open>Python values and exceptions\<close>

text \<open>
  Exceptions are values.  Every exception class the modelled code can raise is a
  constructor of \<open>exc_kind\<close>; all of them derive from Python's \<open>Exception\<close>.  An
  \<open>except\<close> clause names a tuple of classes: \<open>AnyException\<close> stands for the class
  \<open>Exception\<close> itself, \<open>Only k\<close> for one of its direct subclasses.
\<close>

datatype exc_kind =
    VectorDBError | EmbeddingError | LLMError | CacheError
  | ValidationError | ValueError | TypeError | AttributeError
  | KeyError | IndexError | ZeroDivisionError | ConnectionError | OverflowError

datatype exc_class = AnyException | Only exc_kind

fun isinstance :: "exc_kind \<Rightarrow> exc_class \<Rightarrow> bool" where
  "isinstance e AnyException = True"
| "isinstance e (Only k) = (e = k)"

definition caught_by :: "exc_class list \<Rightarrow> exc_kind \<Rightarrow> bool" where
  "caught_by classes e = list_ex (isinstance e) classes"

text \<open>
  Values decoded from JSON (event payloads, cached responses), and Python's truth test
  on them, which \<^verbatim>\<open>or\<close>, \<^verbatim>\<open>if x\<close> and \<^verbatim>\<open>if not x\<close> apply.  A dictionary is an
  association list; \<^verbatim>\<open>d.get(k)\<close> is \<open>map_of d k\<close>.
\<close>

datatype json =
    JNull | JBool bool | JInt int | JFloat real | JStr string
  | JArr "json list" | JObj "(string \<times> json) list"

type_synonym pydict = "(string \<times> json) list"

fun truthy :: "json \<Rightarrow> bool" where
  "truthy JNull = False"
| "truthy (JBool b) = b"
| "truthy (JInt i) = (i \<noteq> 0)"
| "truthy (JFloat r) = (r \<noteq> 0)"
| "truthy (JStr s) = (s \<noteq> [])"
| "truthy (JArr xs) = (xs \<noteq> [])"
| "truthy (JObj kvs) = (kvs \<noteq> [])"

text \<open>Python's \<^verbatim>\<open>str\<close> of an integer: decimal digits, with a sign when negative.\<close>

definition digit_char :: "nat \<Rightarrow> char" where
  "digit_char d = char_of (48 + d)"

fun str_nat :: "nat \<Rightarrow> string" where
  "str_nat n = (if n < 10 then [digit_char n] else str_nat (n div 10) @ [digit_char (n mod 10)])"

declare str_nat.simps [simp del]

definition str_int :: "int \<Rightarrow> string" where
  "str_int i = (if i < 0 then CHR ''-'' # str_nat (nat (- i)) else str_nat (nat i))"

text \<open>
  A \<^verbatim>\<open>uuid.UUID\<close> object is its 128-bit integer.  The functions of Python's standard
  library and of the third-party packages that the modelled code calls are not code of
  the repository; they are the fields of \<open>library\<close>, and every theorem holds for any
  choice of them:
  \<^item> \<open>uuid5\<close>, \<open>uuid_str\<close> and \<open>uuid_parse\<close> are \<^verbatim>\<open>uuid.uuid5\<close>, \<^verbatim>\<open>str\<close> on a UUID and
    the constructor \<^verbatim>\<open>uuid.UUID(x)\<close>, which raises on a malformed argument;
  \<^item> \<open>split_text\<close> is the configured \<^verbatim>\<open>RecursiveCharacterTextSplitter.split_text\<close>;
  \<^item> \<open>md5_hex\<close> is \<^verbatim>\<open>hashlib.md5(s.encode()).hexdigest()\<close>;
  \<^item> \<open>json_dumps\<close> and \<open>json_loads\<close> are \<^verbatim>\<open>json.dumps\<close> and \<^verbatim>\<open>json.loads\<close>, the
    latter \<open>None\<close> where it raises \<^verbatim>\<open>JSONDecodeError\<close>;
  \<^item> \<open>validate_int\<close> is pydantic's validation of an \<^verbatim>\<open>Optional[int]\<close> field on a value
    that is not \<^verbatim>\<open>None\<close>, \<open>None\<close> where it rejects the value;
  \<^item> \<open>py_repr\<close> is \<^verbatim>\<open>str\<close> on a float, a list or a dictionary;
  \<^item> \<open>timestamp_error\<close> is the exception, if any, that
    \<^verbatim>\<open>datetime.fromtimestamp(ts_ms / 1000)\<close> raises on an out-of-range timestamp.
\<close>

datatype uuid = UUID (uuid_int: nat)

record library =
  uuid5 :: "uuid \<Rightarrow> string \<Rightarrow> uuid"
  uuid_str :: "uuid \<Rightarrow> string"
  uuid_parse :: "json \<Rightarrow> exc_kind + uuid"
  split_text :: "string \<Rightarrow> string list"
  md5_hex :: "string \<Rightarrow> string"
  json_dumps :: "json \<Rightarrow> string"
  json_loads :: "string \<Rightarrow> json option"
  validate_int :: "json \<Rightarrow> int option"
  py_repr :: "json \<Rightarrow> string"
  timestamp_error :: "int \<Rightarrow> exc_kind option"

text \<open>Python's \<^verbatim>\<open>str(v)\<close>, which an f-string applies to the values it formats.\<close>

definition py_str :: "library \<Rightarrow> json \<Rightarrow> string" where
  "py_str L v =
     (case v of
        JStr s \<Rightarrow> s
      | JInt i \<Rightarrow> str_int i
      | JNull \<Rightarrow> ''None''
      | JBool b \<Rightarrow> (if b then ''True'' else ''False'')
      | _ \<Rightarrow> py_repr L v)"

section \<open>Chunker\<close>

text \<open>
  \<^verbatim>\<open>ChunkingService._generate_chunk_uuid\<close>.  The namespace
  \<^verbatim>\<open>uuid.UUID("00000000-0000-0000-0000-000000000000")\<close> is the nil UUID, the integer 0;
  the name is the f-string \<^verbatim>\<open>f"{document_id}:{chunk_index}"\<close>.
\<close>

definition nil_namespace :: uuid where
  "nil_namespace = UUID 0"

definition generate_chunk_uuid :: "library \<Rightarrow> string \<Rightarrow> int \<Rightarrow> string" where
  "generate_chunk_uuid L document_id chunk_index =
     (let namespace = nil_namespace;
          name = document_id @ '':'' @ str_int chunk_index
      in uuid_str L (uuid5 L namespace name))"

record chunk =
  c_id :: string
  c_content :: string
  c_chunk_index :: int
  c_document_id :: string

text \<open>
  \<^verbatim>\<open>ChunkingService.chunk_document\<close>: the loop over \<^verbatim>\<open>enumerate(chunks)\<close> appends one
  dictionary per chunk, in order.
\<close>

definition chunk_document :: "library \<Rightarrow> string \<Rightarrow> string \<Rightarrow> chunk list" where
  "chunk_document L content document_id =
     (let chunks = split_text L content
      in map (\<lambda>(idx, chunk_text).
                \<lparr> c_id = generate_chunk_uuid L document_id (int idx),
                  c_content = chunk_text,
                  c_chunk_index = int idx,
                  c_document_id = document_id \<rparr>)
             (enumerate 0 chunks))"

section \<open>Query processor: source filtering and pagination\<close>

text \<open>
  Module constants of \<^verbatim>\<open>query_processor.py\<close>.  Python floats are read as the reals
  their literals denote; the code only compares them.
\<close>

definition MAX_CONTEXT_TOKENS :: int where
  "MAX_CONTEXT_TOKENS = 8000"

definition MAX_CONTEXT_CHARS :: int where
  "MAX_CONTEXT_CHARS = MAX_CONTEXT_TOKENS * 4"

definition MIN_SIMILARITY_SCORE :: real where
  "MIN_SIMILARITY_SCORE = 15 / 100"

text \<open>
  An annotated source, the dictionary \<^verbatim>\<open>{document_id, score, version, cited}\<close> that
  \<^verbatim>\<open>process_query\<close> builds for each used match.  The document id and the version are
  the payload values of the point, whatever they are.
\<close>

record source =
  s_document_id :: json
  s_score :: real
  s_version :: json
  s_cited :: bool

text \<open>\<^verbatim>\<open>QueryProcessor._filter_sources\<close>: the two list comprehensions are filters.\<close>

definition filter_sources :: "source list \<Rightarrow> real \<Rightarrow> bool \<Rightarrow> source list" where
  "filter_sources sources confidence is_complete =
     (if confidence = 0 then []
      else if confidence < 3 / 10 \<or> \<not> is_complete then
        [s \<leftarrow> sources. s_cited s \<and> s_score s \<ge> MIN_SIMILARITY_SCORE]
      else
        [s \<leftarrow> sources. s_score s \<ge> MIN_SIMILARITY_SCORE])"

text \<open>
  Python's slice \<^verbatim>\<open>xs[start:stop]\<close> for integer bounds: a negative bound counts from
  the end, and both bounds are clamped to the list.
\<close>

definition py_slice :: "'a list \<Rightarrow> int \<Rightarrow> int \<Rightarrow> 'a list" where
  "py_slice xs start stop =
     (let n = int (length xs);
          lo = (if start < 0 then max (start + n) 0 else min start n);
          hi = (if stop < 0 then max (stop + n) 0 else min stop n)
      in take (nat (hi - lo)) (drop (nat lo) xs))"

record pagination =
  page :: int
  page_size :: int
  total :: int
  total_pages :: int
  has_next :: bool
  has_prev :: bool

text \<open>
  \<^verbatim>\<open>QueryProcessor._paginate_sources\<close>.  The floor division \<^verbatim>\<open>//\<close> raises
  \<^verbatim>\<open>ZeroDivisionError\<close> on a zero page size, which is reached only when the metadata
  is built.
\<close>

definition paginate_sources ::
  "'a list \<Rightarrow> int \<Rightarrow> int \<Rightarrow> exc_kind + ('a list \<times> pagination option)" where
  "paginate_sources sources pg pg_size =
     (let total_sources = int (length sources);
          start_idx = (pg - 1) * pg_size;
          end_idx = start_idx + pg_size;
          paginated_sources = py_slice sources start_idx end_idx
      in if total_sources > pg_size then
           (if pg_size = 0 then Inl ZeroDivisionError
            else Inr (paginated_sources,
                      Some \<lparr> page = pg, page_size = pg_size, total = total_sources,
                             total_pages = (total_sources + pg_size - 1) div pg_size,
                             has_next = (end_idx < total_sources),
                             has_prev = (pg > 1) \<rparr>))
         else Inr (paginated_sources, None))"

section \<open>Query processor: context assembly\<close>

text \<open>
  A match, the dictionary \<^verbatim>\<open>{id, content, document_id, score, version}\<close> that
  \<^verbatim>\<open>VectorDBService.search\<close> returns for each point.  \<^verbatim>\<open>_build_context\<close> reads the
  content with \<^verbatim>\<open>match.get("content", "")\<close>, so a match without the key is allowed:
  its content is \<open>None\<close> here and reads as the empty string.
\<close>

record match =
  m_id :: string
  m_content :: "string option"
  m_document_id :: json
  m_score :: real
  m_version :: json

definition content_of :: "match \<Rightarrow> string" where
  "content_of m = (case m_content m of None \<Rightarrow> [] | Some c \<Rightarrow> c)"

text \<open>The separator \<^verbatim>\<open>"\\n\\n"\<close> and Python's \<^verbatim>\<open>sep.join(parts)\<close>.\<close>

definition separator :: string where
  "separator = [CHR 0x0A, CHR 0x0A]"

fun py_join :: "'a list \<Rightarrow> 'a list list \<Rightarrow> 'a list" where
  "py_join sep [] = []"
| "py_join sep [x] = x"
| "py_join sep (x # y # ys) = x @ sep @ py_join sep (y # ys)"

text \<open>
  The loop of \<^verbatim>\<open>QueryProcessor._build_context\<close> over the remaining matches, with its
  three accumulators; the \<^verbatim>\<open>break\<close> is the branch that does not recurse.  The
  truncation \<^verbatim>\<open>content[:remaining_space]\<close> is a slice from index 0.
\<close>

fun build_context_loop ::
  "match list \<Rightarrow> string list \<Rightarrow> int \<Rightarrow> match list \<Rightarrow> string list \<times> match list" where
  "build_context_loop [] context_parts total_chars used_matches =
     (context_parts, used_matches)"
| "build_context_loop (m # ms) context_parts total_chars used_matches =
     (let content = content_of m;
          content_length = int (length content);
          separator_length = (if context_parts \<noteq> [] then 2 else 0)
      in if total_chars + content_length + separator_length \<le> MAX_CONTEXT_CHARS then
           build_context_loop ms (context_parts @ [content])
             (total_chars + content_length + separator_length) (used_matches @ [m])
         else
           (let remaining_space = MAX_CONTEXT_CHARS - total_chars - separator_length
            in if remaining_space > 100 then
                 (context_parts @ [py_slice content 0 remaining_space], used_matches @ [m])
               else (context_parts, used_matches)))"

definition build_context :: "match list \<Rightarrow> string \<times> match list" where
  "build_context matches =
     (case build_context_loop matches [] 0 [] of
        (context_parts, used_matches) \<Rightarrow> (py_join separator context_parts, used_matches))"

section \<open>Settings and the retry helper\<close>

text \<open>
  The settings that the modelled code reads, with the defaults of \<^verbatim>\<open>config.py\<close>; each
  can be overridden from the process environment.
\<close>

record settings =
  max_retries :: int
  retry_delay_seconds :: real
  retry_backoff_multiplier :: real
  cache_ttl :: int

definition default_settings :: settings where
  "default_settings = \<lparr> max_retries = 3, retry_delay_seconds = 1,
                          retry_backoff_multiplier = 2, cache_ttl = 3600 \<rparr>"

text \<open>
  What a function does besides computing: it sleeps and it logs.  A function that has
  such effects takes the handler \<open>eff\<close> that applies them to the state.  Log messages
  are kept up to their fixed text; the values formatted into them are dropped.
\<close>

datatype log_level = INFO | WARNING | ERROR

datatype effect = Sleep real | Log log_level string

text \<open>
  Python's \<^verbatim>\<open>x or d\<close> on an optional number: the default replaces \<^verbatim>\<open>None\<close>, and it
  replaces zero as well, which is falsy.
\<close>

definition or_default :: "'a::zero option \<Rightarrow> 'a \<Rightarrow> 'a" where
  "or_default x d = (case x of None \<Rightarrow> d | Some v \<Rightarrow> if v = 0 then d else v)"

text \<open>
  The loop \<^verbatim>\<open>for attempt in range(max_retries + 1)\<close> of \<^verbatim>\<open>retry_with_backoff\<close> over the
  attempts still to make.  The operation \<open>func\<close> acts on the state and returns a value or
  raises.  After the loop, \<^verbatim>\<open>raise last_exception\<close> raises the last error caught, and a
  \<^verbatim>\<open>TypeError\<close> when there is none (the loop did not run).
\<close>

fun retry_loop ::
  "(effect \<Rightarrow> 's \<Rightarrow> 's) \<Rightarrow> ('s \<Rightarrow> (exc_kind + 'a) \<times> 's) \<Rightarrow> exc_class list \<Rightarrow>
   int \<Rightarrow> real \<Rightarrow> real \<Rightarrow> nat list \<Rightarrow> exc_kind option \<Rightarrow> 's \<Rightarrow> (exc_kind + 'a) \<times> 's" where
  "retry_loop eff func exceptions mr delay mult [] last_exception s =
     (case last_exception of None \<Rightarrow> (Inl TypeError, s) | Some e \<Rightarrow> (Inl e, s))"
| "retry_loop eff func exceptions mr delay mult (attempt # rest) last_exception s =
     (case func s of
        (Inr v, s') \<Rightarrow> (Inr v, s')
      | (Inl e, s') \<Rightarrow>
          if caught_by exceptions e then
            (if int attempt < mr then
               (let wait_time = delay * mult ^ attempt
                in retry_loop eff func exceptions mr delay mult rest (Some e)
                     (eff (Sleep wait_time) (eff (Log WARNING ''Attempt failed. Retrying'') s')))
             else
               retry_loop eff func exceptions mr delay mult rest (Some e)
                 (eff (Log ERROR ''All attempts failed'') s'))
          else (Inl e, s'))"

definition retry_with_backoff ::
  "settings \<Rightarrow> (effect \<Rightarrow> 's \<Rightarrow> 's) \<Rightarrow> ('s \<Rightarrow> (exc_kind + 'a) \<times> 's) \<Rightarrow>
   int option \<Rightarrow> real option \<Rightarrow> real option \<Rightarrow> exc_class list \<Rightarrow> 's \<Rightarrow>
   (exc_kind + 'a) \<times> 's" where
  "retry_with_backoff S eff func max_retries_arg delay_arg backoff_multiplier_arg exceptions s =
     (let mr = or_default max_retries_arg (max_retries S);
          delay = or_default delay_arg (retry_delay_seconds S);
          backoff_multiplier = or_default backoff_multiplier_arg (retry_backoff_multiplier S)
      in retry_loop eff func exceptions mr delay backoff_multiplier
           [0 ..< nat (mr + 1)] None s)"

text \<open>
  To count invocations and waits, an operation is run on a state paired with a trace:
  \<open>traced func\<close> records each invocation of \<open>func\<close>, and \<open>traced_eff\<close> each sleep.
\<close>

datatype trace_event = Invoked | Slept real

definition traced ::
  "('s \<Rightarrow> 'r \<times> 's) \<Rightarrow> trace_event list \<times> 's \<Rightarrow> 'r \<times> trace_event list \<times> 's" where
  "traced func = (\<lambda>(tr, s). case func s of (r, s') \<Rightarrow> (r, (tr @ [Invoked], s')))"

fun traced_eff :: "effect \<Rightarrow> trace_event list \<times> 's \<Rightarrow> trace_event list \<times> 's" where
  "traced_eff (Sleep t) (tr, s) = (tr @ [Slept t], s)"
| "traced_eff (Log l m) (tr, s) = (tr, s)"

section \<open>The world outside the process\<close>

text \<open>
  The state that the two services act on: the vector store collection and the client
  handle of \<^verbatim>\<open>VectorDBService\<close>, the cache server's keys and the client handle of
  \<^verbatim>\<open>CacheService\<close>, the two Prometheus counters of the update path, the log, the
  sleeps made, and the number of calls made so far to an external server.  The
  histogram observations and the in-process activity trackers hold clock readings
  that nothing modelled here reads back; they are left out.
\<close>

record point =
  p_id :: string
  p_vector :: "real list"
  p_document_id :: string
  p_content :: string
  p_chunk_index :: int
  p_version :: json

record world =
  vdb_client :: bool
  points :: "point list"
  cache_client :: bool
  cache :: "(string \<times> string \<times> int) list"
  updates_total :: nat
  update_errors_total :: nat
  logs :: "(log_level \<times> string) list"
  slept :: "real list"
  calls :: nat

text \<open>
  What the external servers answer is not decided by the repository's code:
  \<^item> \<open>fault n\<close> is the exception, if any, with which the \<open>n\<close>-th call to a server
    (embedding provider, vector store, cache server) fails; a failed call leaves the
    server's state as it was;
  \<^item> \<open>embed\<close> is the embedding provider's answer to a batch of texts;
  \<^item> \<open>nearest\<close> is the vector store's nearest-neighbour query, giving points with scores;
  \<^item> \<open>llm_reply\<close> is the parsed reply of the language model, \<open>None\<close> when the call fails
    or the reply is not a JSON object of the expected fields;
  \<^item> \<open>now_ms\<close> is the wall clock, \<^verbatim>\<open>int(time.time() * 1000)\<close>.
\<close>

record structured_answer =
  a_answer :: string
  a_confidence :: real
  a_citations :: "string list"
  a_is_complete :: bool

record services =
  fault :: "nat \<Rightarrow> exc_kind option"
  embed :: "string list \<Rightarrow> real list list"
  nearest :: "point list \<Rightarrow> real list \<Rightarrow> int \<Rightarrow> (point \<times> real) list"
  llm_reply :: "string \<Rightarrow> string \<Rightarrow> string list \<Rightarrow> structured_answer option"
  now_ms :: int

fun world_eff :: "effect \<Rightarrow> world \<Rightarrow> world" where
  "world_eff (Sleep t) w = w\<lparr>slept := slept w @ [t]\<rparr>"
| "world_eff (Log l m) w = w\<lparr>logs := logs w @ [(l, m)]\<rparr>"

definition backend :: "services \<Rightarrow> world \<Rightarrow> exc_kind option \<times> world" where
  "backend Sv w = (fault Sv (calls w), w\<lparr>calls := Suc (calls w)\<rparr>)"

section \<open>Vector store, embedding and cache services\<close>

text \<open>An upsert replaces the point of the same id, or adds the point.\<close>

definition upsert_point :: "point \<Rightarrow> point list \<Rightarrow> point list" where
  "upsert_point p ps =
     (if p_id p \<in> set (map p_id ps)
      then map (\<lambda>q. if p_id q = p_id p then p else q) ps
      else ps @ [p])"

text \<open>
  \<^verbatim>\<open>VectorDBService.upsert_chunks\<close>, \<^verbatim>\<open>delete_document_chunks\<close> and \<^verbatim>\<open>search\<close>.  Only the
  two checks raise \<^verbatim>\<open>VectorDBError\<close>; an exception of the client call is not wrapped.
\<close>

definition upsert_chunks ::
  "services \<Rightarrow> chunk list \<Rightarrow> real list list \<Rightarrow> string \<Rightarrow> json \<Rightarrow> world \<Rightarrow>
   (exc_kind + unit) \<times> world" where
  "upsert_chunks Sv chunks embeddings document_id version w =
     (if \<not> vdb_client w then (Inl VectorDBError, w)
      else if length chunks \<noteq> length embeddings then (Inl VectorDBError, w)
      else
        (let pts = map (\<lambda>(c, e). \<lparr> p_id = c_id c, p_vector = e,
                                   p_document_id = document_id,
                                   p_content = c_content c,
                                   p_chunk_index = c_chunk_index c,
                                   p_version = version \<rparr>)
                       (zip chunks embeddings)
         in case backend Sv w of
              (Some e, w') \<Rightarrow> (Inl e, w')
            | (None, w') \<Rightarrow>
                (Inr (), w'\<lparr>points := foldl (\<lambda>ps p. upsert_point p ps) (points w') pts\<rparr>)))"

definition delete_document_chunks ::
  "services \<Rightarrow> string \<Rightarrow> world \<Rightarrow> (exc_kind + unit) \<times> world" where
  "delete_document_chunks Sv document_id w =
     (if \<not> vdb_client w then (Inl VectorDBError, w)
      else case backend Sv w of
             (Some e, w') \<Rightarrow> (Inl e, w')
           | (None, w') \<Rightarrow>
               (Inr (), w'\<lparr>points := filter (\<lambda>q. p_document_id q \<noteq> document_id) (points w')\<rparr>))"

definition search ::
  "services \<Rightarrow> real list \<Rightarrow> int \<Rightarrow> world \<Rightarrow> (exc_kind + match list) \<times> world" where
  "search Sv query_embedding top_k w =
     (if \<not> vdb_client w then (Inl VectorDBError, w)
      else case backend Sv w of
             (Some e, w') \<Rightarrow> (Inl e, w')
           | (None, w') \<Rightarrow>
               (Inr (map (\<lambda>(p, sc). \<lparr> m_id = p_id p, m_content = Some (p_content p),
                                      m_document_id = JStr (p_document_id p),
                                      m_score = sc, m_version = p_version p \<rparr>)
                         (nearest Sv (points w') query_embedding top_k)), w'))"

text \<open>
  \<^verbatim>\<open>EmbeddingService.generate_embeddings\<close> turns every failure into an
  \<^verbatim>\<open>EmbeddingError\<close>; \<^verbatim>\<open>generate_embedding\<close> takes the first vector of the answer.
\<close>

definition generate_embeddings ::
  "services \<Rightarrow> string list \<Rightarrow> world \<Rightarrow> (exc_kind + real list list) \<times> world" where
  "generate_embeddings Sv texts w =
     (case backend Sv w of
        (Some e, w') \<Rightarrow> (Inl EmbeddingError, w')
      | (None, w') \<Rightarrow> (Inr (embed Sv texts), w'))"

definition generate_embedding ::
  "services \<Rightarrow> string \<Rightarrow> world \<Rightarrow> (exc_kind + real list) \<times> world" where
  "generate_embedding Sv text w =
     (case generate_embeddings Sv [text] w of
        (Inl e, w') \<Rightarrow> (Inl e, w')
      | (Inr [], w') \<Rightarrow> (Inl IndexError, w')
      | (Inr (v # vs), w') \<Rightarrow> (Inr v, w'))"

text \<open>
  \<^verbatim>\<open>CacheService\<close>: reads fail open, \<^verbatim>\<open>set\<close> raises \<^verbatim>\<open>CacheError\<close>, \<^verbatim>\<open>delete\<close>
  swallows the failure.  Without a client every operation returns at once.
\<close>

definition cache_get :: "services \<Rightarrow> string \<Rightarrow> world \<Rightarrow> string option \<times> world" where
  "cache_get Sv key w =
     (if \<not> cache_client w then (None, w)
      else case backend Sv w of
             (Some e, w') \<Rightarrow> (None, w')
           | (None, w') \<Rightarrow> (map_option fst (map_of (cache w') key), w'))"

definition cache_set ::
  "settings \<Rightarrow> services \<Rightarrow> string \<Rightarrow> string \<Rightarrow> int option \<Rightarrow> world \<Rightarrow>
   (exc_kind + unit) \<times> world" where
  "cache_set S Sv key val ttl w =
     (if \<not> cache_client w then (Inr (), w)
      else case backend Sv w of
             (Some e, w') \<Rightarrow> (Inl CacheError, w')
           | (None, w') \<Rightarrow>
               (Inr (), w'\<lparr>cache := (key, (val, or_default ttl (cache_ttl S)))
                                      # filter (\<lambda>kv. fst kv \<noteq> key) (cache w')\<rparr>))"

definition get_json ::
  "library \<Rightarrow> services \<Rightarrow> string \<Rightarrow> world \<Rightarrow> json option \<times> world" where
  "get_json L Sv key w =
     (case cache_get Sv key w of
        (None, w') \<Rightarrow> (None, w')
      | (Some val, w') \<Rightarrow> (if val \<noteq> [] then json_loads L val else None, w'))"

definition set_json ::
  "library \<Rightarrow> settings \<Rightarrow> services \<Rightarrow> string \<Rightarrow> json \<Rightarrow> int option \<Rightarrow> world \<Rightarrow>
   (exc_kind + unit) \<times> world" where
  "set_json L S Sv key val ttl w = cache_set S Sv key (json_dumps L val) ttl w"

definition cache_delete :: "services \<Rightarrow> string \<Rightarrow> world \<Rightarrow> world" where
  "cache_delete Sv key w =
     (if \<not> cache_client w then w
      else case backend Sv w of
             (Some e, w') \<Rightarrow> w'
           | (None, w') \<Rightarrow> w'\<lparr>cache := filter (\<lambda>kv. fst kv \<noteq> key) (cache w')\<rparr>)"

section \<open>Event processor\<close>

text \<open>
  Dictionary reads: \<^verbatim>\<open>d.get(k)\<close> gives \<^verbatim>\<open>None\<close>, which is JSON's null, for a missing key;
  \<^verbatim>\<open>d.get(k, default)\<close> gives the default; \<^verbatim>\<open>a or b\<close> is \<open>a\<close> when \<open>a\<close> is truthy.
\<close>

definition dict_get :: "pydict \<Rightarrow> string \<Rightarrow> json" where
  "dict_get d k = (case map_of d k of None \<Rightarrow> JNull | Some v \<Rightarrow> v)"

definition dict_get_default :: "pydict \<Rightarrow> string \<Rightarrow> json \<Rightarrow> json" where
  "dict_get_default d k dflt = (case map_of d k of None \<Rightarrow> dflt | Some v \<Rightarrow> v)"

definition py_or :: "json \<Rightarrow> json \<Rightarrow> json" where
  "py_or a b = (if truthy a then a else b)"

text \<open>
  The pydantic model \<^verbatim>\<open>DocumentEvent\<close>.  Building one validates the fields: \<^verbatim>\<open>op\<close> must
  be a string, and \<^verbatim>\<open>ts_ms\<close>, when not \<^verbatim>\<open>None\<close>, must validate as an integer.
\<close>

record document_event =
  ev_op :: string
  ev_before :: "pydict option"
  ev_after :: "pydict option"
  ev_source :: "pydict option"
  ev_ts_ms :: "int option"

definition DocumentEvent ::
  "library \<Rightarrow> json \<Rightarrow> pydict option \<Rightarrow> pydict option \<Rightarrow> pydict option \<Rightarrow> json \<Rightarrow>
   exc_kind + document_event" where
  "DocumentEvent L op_v before_v after_v source_v ts_v =
     (case op_v of
        JStr s \<Rightarrow>
          (case ts_v of
             JNull \<Rightarrow> Inr \<lparr> ev_op = s, ev_before = before_v, ev_after = after_v,
                            ev_source = source_v, ev_ts_ms = None \<rparr>
           | _ \<Rightarrow>
               (case validate_int L ts_v of
                  None \<Rightarrow> Inl ValidationError
                | Some i \<Rightarrow> Inr \<lparr> ev_op = s, ev_before = before_v, ev_after = after_v,
                                  ev_source = source_v, ev_ts_ms = Some i \<rparr>))
      | _ \<Rightarrow> Inl ValidationError)"

text \<open>
  \<^verbatim>\<open>EventProcessor._parse_event\<close>.  The result is \<open>Inr None\<close> where the method returns
  \<^verbatim>\<open>None\<close>; the warning it logs before that is logged by \<open>process_event\<close> below.
\<close>

definition parse_event ::
  "library \<Rightarrow> services \<Rightarrow> pydict \<Rightarrow> exc_kind + document_event option" where
  "parse_event L Sv event_data =
     (let op0 = py_or (dict_get event_data ''__op'')
                      (dict_get_default event_data ''op'' (JStr ''c''));
          ts_ms = py_or (dict_get event_data ''__source_ts_ms'') (dict_get event_data ''ts_ms'');
          op1 = (if dict_get event_data ''__deleted'' = JStr ''true'' then JStr ''d'' else op0);
          filtered_data = filter (\<lambda>(k, v). \<not> prefix ''__'' k) event_data
      in if filtered_data = [] then Inr None
         else
           (let before_data = (if op1 = JStr ''d'' then Some filtered_data else None);
                after_data = (if op1 = JStr ''d'' then None else Some filtered_data)
            in case DocumentEvent L op1 before_data after_data (Some [])
                      (py_or ts_ms (JInt (now_ms Sv))) of
                 Inl e \<Rightarrow> Inl e
               | Inr ev \<Rightarrow> Inr (Some ev)))"

text \<open>
  \<^verbatim>\<open>DocumentEvent.get_document_id\<close>: \<^verbatim>\<open>self.after or self.before\<close> skips a side that is
  \<^verbatim>\<open>None\<close> or empty; the id is built by \<^verbatim>\<open>UUID(data["id"])\<close>, which raises on a value
  that is not a well-formed UUID string.
\<close>

definition get_document_id :: "library \<Rightarrow> document_event \<Rightarrow> exc_kind + uuid option" where
  "get_document_id L ev =
     (let data = (case ev_after ev of
                    Some a \<Rightarrow> (if a \<noteq> [] then Some a else ev_before ev)
                  | None \<Rightarrow> ev_before ev)
      in case data of
           None \<Rightarrow> Inr None
         | Some d \<Rightarrow>
             (if d \<noteq> [] \<and> ''id'' \<in> set (map fst d) then
                (case uuid_parse L (dict_get d ''id'') of
                   Inl e \<Rightarrow> Inl e
                 | Inr u \<Rightarrow> Inr (Some u))
              else Inr None))"

text \<open>
  \<^verbatim>\<open>DocumentEvent.get_timestamp\<close>, as far as it can fail: a truthy \<^verbatim>\<open>ts_ms\<close> goes
  through \<^verbatim>\<open>datetime.fromtimestamp\<close>.
\<close>

definition get_timestamp_error :: "library \<Rightarrow> document_event \<Rightarrow> exc_kind option" where
  "get_timestamp_error L ev =
     (case ev_ts_ms ev of
        None \<Rightarrow> None
      | Some t \<Rightarrow> (if t \<noteq> 0 then timestamp_error L t else None))"

text \<open>\<^verbatim>\<open>EventProcessor._handle_delete\<close>.\<close>

definition handle_delete ::
  "library \<Rightarrow> services \<Rightarrow> document_event \<Rightarrow> world \<Rightarrow> (exc_kind + unit) \<times> world" where
  "handle_delete L Sv ev w =
     (case get_document_id L ev of
        Inl e \<Rightarrow> (Inl e, w)
      | Inr None \<Rightarrow> (Inr (), world_eff (Log WARNING ''Delete event missing document ID'') w)
      | Inr (Some document_id) \<Rightarrow>
          (case delete_document_chunks Sv (uuid_str L document_id) w of
             (Inr u, w') \<Rightarrow> (Inr (), world_eff (Log INFO ''Deleted chunks for document'') w')
           | (Inl e, w') \<Rightarrow>
               (if e = VectorDBError
                then (Inl e, world_eff (Log ERROR ''Failed to delete chunks'') w')
                else (Inl e, w'))))"

text \<open>
  \<^verbatim>\<open>EventProcessor._handle_create_or_update\<close>.  \<open>create_or_update_body\<close> is the body of
  its \<^verbatim>\<open>try\<close>; the handler logs and re-raises whatever the body raises.  The splitter
  is handed the content as it is, and raises \<^verbatim>\<open>TypeError\<close> on a content that is not a
  string.
\<close>

definition create_or_update_body ::
  "library \<Rightarrow> settings \<Rightarrow> services \<Rightarrow> document_event \<Rightarrow> json \<Rightarrow> json \<Rightarrow> json \<Rightarrow> world \<Rightarrow>
   (exc_kind + unit) \<times> world" where
  "create_or_update_body L S Sv ev document_id content version w =
     (case content of
        JStr text \<Rightarrow>
          (let chunks = chunk_document L text (py_str L document_id)
           in if chunks = [] then
                (Inr (), world_eff (Log WARNING ''No chunks generated for document'') w)
              else
                (let texts = map c_content chunks
                 in case retry_with_backoff S world_eff (generate_embeddings Sv texts)
                           None None None [AnyException] w of
                      (Inl e, w1) \<Rightarrow> (Inl e, w1)
                    | (Inr embeddings, w1) \<Rightarrow>
                        (case retry_with_backoff S world_eff
                                (upsert_chunks Sv chunks embeddings (py_str L document_id) version)
                                None None None [Only VectorDBError] w1 of
                           (Inl e, w2) \<Rightarrow> (Inl e, w2)
                         | (Inr u, w2) \<Rightarrow>
                             (case get_timestamp_error L ev of
                                Some e \<Rightarrow> (Inl e, w2)
                              | None \<Rightarrow>
                                  (Inr (),
                                   world_eff (Log INFO ''Updated document'')
                                     (cache_delete Sv (''query:'' @ py_str L document_id) w2))))))
      | _ \<Rightarrow> (Inl TypeError, w))"

definition handle_create_or_update ::
  "library \<Rightarrow> settings \<Rightarrow> services \<Rightarrow> document_event \<Rightarrow> world \<Rightarrow> (exc_kind + unit) \<times> world" where
  "handle_create_or_update L S Sv ev w =
     (case ev_after ev of
        None \<Rightarrow> (Inr (), world_eff (Log WARNING ''Create/update event missing after data'') w)
      | Some after \<Rightarrow>
          (if after = [] then
             (Inr (), world_eff (Log WARNING ''Create/update event missing after data'') w)
           else
             (let document_id = dict_get after ''id'';
                  content = dict_get_default after ''content'' (JStr []);
                  version = dict_get_default after ''version'' (JInt 1)
              in if \<not> truthy document_id \<or> \<not> truthy content then
                   (Inr (), world_eff (Log WARNING ''Event missing required fields'') w)
                 else
                   (case create_or_update_body L S Sv ev document_id content version w of
                      (Inl e, w') \<Rightarrow>
                        (Inl e, world_eff (Log ERROR ''Failed to process create/update'') w')
                    | (Inr u, w') \<Rightarrow> (Inr u, w')))))"

text \<open>
  \<^verbatim>\<open>EventProcessor.process_event\<close>.  \<open>process_event_body\<close> is the body of its \<^verbatim>\<open>try\<close>;
  the \<^verbatim>\<open>except\<close> clause logs, increments \<^verbatim>\<open>update_errors_total\<close> and re-raises.
\<close>

definition process_event_body ::
  "library \<Rightarrow> settings \<Rightarrow> services \<Rightarrow> pydict \<Rightarrow> world \<Rightarrow> (exc_kind + unit) \<times> world" where
  "process_event_body L S Sv event_data w =
     (case parse_event L Sv event_data of
        Inl e \<Rightarrow> (Inl e, w)
      | Inr None \<Rightarrow>
          (Inr (), world_eff (Log WARNING ''Event data is empty after filtering, skipping'') w)
      | Inr (Some event) \<Rightarrow>
          (let w1 = w\<lparr>updates_total := Suc (updates_total w)\<rparr>
           in if ev_op event = ''d'' then handle_delete L Sv event w1
              else if ev_op event = ''c'' \<or> ev_op event = ''u'' then
                handle_create_or_update L S Sv event w1
              else (Inr (), world_eff (Log WARNING ''Unknown operation'') w1)))"

definition process_event ::
  "library \<Rightarrow> settings \<Rightarrow> services \<Rightarrow> pydict \<Rightarrow> world \<Rightarrow> (exc_kind + unit) \<times> world" where
  "process_event L S Sv event_data w =
     (case process_event_body L S Sv event_data w of
        (Inl e, w') \<Rightarrow>
          (Inl e, (world_eff (Log ERROR ''Failed to process event'') w')
                    \<lparr>update_errors_total := Suc (update_errors_total w')\<rparr>)
      | (Inr u, w') \<Rightarrow> (Inr u, w'))"

section \<open>Query processor: the query path\<close>

text \<open>\<^verbatim>\<open>QueryProcessor._get_cache_key\<close>.\<close>

definition get_cache_key :: "library \<Rightarrow> string \<Rightarrow> string" where
  "get_cache_key L query =
     (let query_hash = md5_hex L query;
          cache_version = ''v2''
      in ''query_response:'' @ cache_version @ '':'' @ query_hash)"

text \<open>
  \<^verbatim>\<open>LLMService.generate_response\<close> raises \<^verbatim>\<open>LLMError\<close> for every failure: of the call,
  of the JSON decoding, and of the validation of \<^verbatim>\<open>StructuredAnswer\<close>, whose
  confidence must lie between 0 and 1.
\<close>

definition generate_response ::
  "services \<Rightarrow> string \<Rightarrow> string \<Rightarrow> string list \<Rightarrow> world \<Rightarrow>
   (exc_kind + structured_answer) \<times> world" where
  "generate_response Sv query context document_ids w =
     (case backend Sv w of
        (Some e, w') \<Rightarrow> (Inl LLMError, w')
      | (None, w') \<Rightarrow>
          (case llm_reply Sv query context document_ids of
             None \<Rightarrow> (Inl LLMError, w')
           | Some a \<Rightarrow>
               (if 0 \<le> a_confidence a \<and> a_confidence a \<le> 1 then (Inr a, w')
                else (Inl LLMError, w'))))"

text \<open>The response dictionaries, as the JSON values that are cached and returned.\<close>

definition no_answer_response :: json where
  "no_answer_response =
     JObj [(''answer'', JStr ''I couldn't find relevant information to answer your question.''),
           (''sources'', JArr []),
           (''confidence'', JFloat 0),
           (''is_complete'', JBool False)]"

definition source_json :: "source \<Rightarrow> json" where
  "source_json s =
     JObj [(''document_id'', s_document_id s), (''score'', JFloat (s_score s)),
           (''version'', s_version s), (''cited'', JBool (s_cited s))]"

definition pagination_json :: "pagination option \<Rightarrow> json" where
  "pagination_json p =
     (case p of
        None \<Rightarrow> JNull
      | Some m \<Rightarrow>
          JObj [(''page'', JInt (page m)), (''page_size'', JInt (page_size m)),
                (''total'', JInt (total m)), (''total_pages'', JInt (total_pages m)),
                (''has_next'', JBool (has_next m)), (''has_prev'', JBool (has_prev m))])"

text \<open>
  \<^verbatim>\<open>QueryProcessor.process_query\<close>, in two parts: \<open>answer_from_matches\<close> is the part
  that follows the test for an empty result.  \<^verbatim>\<open>sorted(..., reverse=True)\<close> is a stable
  sort by descending score, which is the stable insertion sort on the negated score.
\<close>

definition annotate_sources :: "library \<Rightarrow> match list \<Rightarrow> string list \<Rightarrow> source list" where
  "annotate_sources L used_matches cited =
     map (\<lambda>m. \<lparr> s_document_id = m_document_id m, s_score = m_score m,
                 s_version = m_version m,
                 s_cited = (py_str L (m_document_id m) \<in> set cited) \<rparr>)
         used_matches"

definition response_json :: "structured_answer \<Rightarrow> source list \<Rightarrow> pagination option \<Rightarrow> json" where
  "response_json structured_response paginated_sources pagination =
     JObj [(''answer'', JStr (a_answer structured_response)),
           (''sources'', JArr (map source_json paginated_sources)),
           (''confidence'', JFloat (a_confidence structured_response)),
           (''is_complete'', JBool (a_is_complete structured_response)),
           (''pagination'', pagination_json pagination)]"

definition answer_from_matches ::
  "library \<Rightarrow> settings \<Rightarrow> services \<Rightarrow> string \<Rightarrow> string \<Rightarrow> match list \<Rightarrow> int \<Rightarrow> int \<Rightarrow>
   world \<Rightarrow> (exc_kind + json) \<times> world" where
  "answer_from_matches L S Sv query cache_key matches pg pg_size w =
     (let sorted_matches = sort_key (\<lambda>m. - m_score m) matches;
          built = build_context sorted_matches;
          context = fst built;
          used_matches = snd built;
          document_ids = map (\<lambda>m. py_str L (m_document_id m))
                           (filter (\<lambda>m. truthy (m_document_id m)) used_matches)
      in case generate_response Sv query context document_ids w of
           (Inl e, w1) \<Rightarrow> (Inl e, w1)
         | (Inr structured_response, w1) \<Rightarrow>
             (let sources = annotate_sources L used_matches (a_citations structured_response);
                  filtered = filter_sources sources (a_confidence structured_response)
                               (a_is_complete structured_response)
              in case paginate_sources filtered pg pg_size of
                   Inl e \<Rightarrow> (Inl e, w1)
                 | Inr (paginated_sources, pagination) \<Rightarrow>
                     (let response = response_json structured_response paginated_sources pagination
                      in case set_json L S Sv cache_key response (Some (cache_ttl S)) w1 of
                           (Inl e, w2) \<Rightarrow> (Inl e, w2)
                         | (Inr u, w2) \<Rightarrow> (Inr response, w2))))"

definition cache_hit :: "json option \<Rightarrow> json option" where
  "cache_hit cached_response =
     (case cached_response of
        Some c \<Rightarrow> (if truthy c then Some c else None)
      | None \<Rightarrow> None)"

definition process_query ::
  "library \<Rightarrow> settings \<Rightarrow> services \<Rightarrow> string \<Rightarrow> int \<Rightarrow> int \<Rightarrow> int \<Rightarrow> world \<Rightarrow>
   (exc_kind + json) \<times> world" where
  "process_query L S Sv query top_k pg pg_size w =
     (let cache_key = get_cache_key L query
      in case get_json L Sv cache_key w of
           (cached_response, w1) \<Rightarrow>
             (case cache_hit cached_response of
                Some c \<Rightarrow> (Inr c, world_eff (Log INFO ''Cache hit for query'') w1)
              | None \<Rightarrow>
                  (case generate_embedding Sv query w1 of
                     (Inl e, w2) \<Rightarrow> (Inl e, w2)
                   | (Inr query_embedding, w2) \<Rightarrow>
                       (case search Sv query_embedding top_k w2 of
                          (Inl e, w3) \<Rightarrow> (Inl e, w3)
                        | (Inr matches, w3) \<Rightarrow>
                            (if matches = [] then (Inr no_answer_response, w3)
                             else answer_from_matches L S Sv query cache_key matches
                                    pg pg_size w3)))))"

section \<open>An example environment\<close>

text \<open>
  A concrete library, concrete services and a concrete state, on which the theorems
  below are instantiated.  The example UUID constructor accepts the strings of 36
  characters; the example splitter returns a non-empty text as one chunk; no call to an
  external server fails.
\<close>

definition example_library :: library where
  "example_library =
     \<lparr> uuid5 = (\<lambda>ns name. UUID (uuid_int ns + sum_list (map of_char name))),
       uuid_str = (\<lambda>u. str_nat (uuid_int u)),
       uuid_parse = (\<lambda>v. case v of
                            JStr s \<Rightarrow> (if length s = 36 then Inr (UUID 7) else Inl ValueError)
                          | _ \<Rightarrow> Inl AttributeError),
       split_text = (\<lambda>s. if s = [] then [] else [s]),
       md5_hex = (\<lambda>s. s),
       json_dumps = (\<lambda>v. ''{}''),
       json_loads = (\<lambda>s. None),
       validate_int = (\<lambda>v. case v of JInt i \<Rightarrow> Some i | _ \<Rightarrow> None),
       py_repr = (\<lambda>v. []),
       timestamp_error = (\<lambda>t. None) \<rparr>"

definition example_services :: services where
  "example_services =
     \<lparr> fault = (\<lambda>n. None), embed = map (\<lambda>t. [1]), nearest = (\<lambda>ps v k. []),
       llm_reply = (\<lambda>q c ds. None), now_ms = 1000 \<rparr>"

definition example_world :: world where
  "example_world =
     \<lparr> vdb_client = True, points = [], cache_client = True,
       cache = [(''query_response:v2:abc'', (''{}'', 3600))],
       updates_total = 0, update_errors_total = 0, logs = [], slept = [], calls = 0 \<rparr>"

section \<open>Properties of the chunker\<close>

text \<open>
  Claim C1.  The chunk at index \<open>i\<close> carries the identifier
  \<open>str (uuid5 nil (document_id + ":" + str i))\<close>: the list of identifiers is that
  function of the document id mapped over the indices \<open>0, ..., n - 1\<close>, where \<open>n\<close> is the
  number of chunks; every chunk's identifier is the function of its own document id and
  index.  Identifiers are values of a function of the pair alone, so two runs on the same
  content and document give the same identifiers at the same indices.
\<close>

theorem chunk_ids_deterministic:
  "length (chunk_document L content document_id) = length (split_text L content)
   \<and> map c_id (chunk_document L content document_id)
       = map (\<lambda>i. uuid_str L (uuid5 L (UUID 0) (document_id @ '':'' @ str_int (int i))))
           [0 ..< length (split_text L content)]
   \<and> map c_chunk_index (chunk_document L content document_id)
       = map int [0 ..< length (split_text L content)]
   \<and> (\<forall>c \<in> set (chunk_document L content document_id).
         c_id c = generate_chunk_uuid L document_id (c_chunk_index c))"
proof -
  let ?n = "length (split_text L content)"
  have len: "length (chunk_document L content document_id) = ?n"
    by (simp add: chunk_document_def)
  have nth: "chunk_document L content document_id ! i =
         \<lparr> c_id = generate_chunk_uuid L document_id (int i),
           c_content = split_text L content ! i,
           c_chunk_index = int i,
           c_document_id = document_id \<rparr>" if "i < ?n" for i
    using that by (simp add: chunk_document_def nth_enumerate_eq)
  have ids: "map c_id (chunk_document L content document_id)
       = map (\<lambda>i. uuid_str L (uuid5 L (UUID 0) (document_id @ '':'' @ str_int (int i)))) [0 ..< ?n]"
    by (rule nth_equalityI)
       (simp_all add: len nth generate_chunk_uuid_def nil_namespace_def)
  have idx: "map c_chunk_index (chunk_document L content document_id) = map int [0 ..< ?n]"
    by (rule nth_equalityI) (simp_all add: len nth)
  have each: "c_id c = generate_chunk_uuid L document_id (c_chunk_index c)"
    if "c \<in> set (chunk_document L content document_id)" for c
  proof -
    from that obtain i where "i < ?n" "c = chunk_document L content document_id ! i"
      by (metis in_set_conv_nth len)
    then show ?thesis by (simp add: nth)
  qed
  from len ids idx each show ?thesis by blast
qed

theorem chunk_ids_deterministic_witness:
  "map c_id (chunk_document
      \<lparr> uuid5 = (\<lambda>ns name. UUID (uuid_int ns + sum_list (map of_char name))),
        uuid_str = (\<lambda>u. str_nat (uuid_int u)),
        uuid_parse = (\<lambda>v. Inl ValueError),
        split_text = (\<lambda>s. [take 4 s, drop 4 s]),
        md5_hex = (\<lambda>s. s),
        json_dumps = (\<lambda>v. []),
        json_loads = (\<lambda>s. None),
        validate_int = (\<lambda>v. None),
        py_repr = (\<lambda>v. []),
        timestamp_error = (\<lambda>t. None) \<rparr>
      ''abcdefgh'' ''doc'')
   = [''416'', ''417'']"
proof -
  have a: "str_nat 416 = ''416''" "str_nat 417 = ''417''" by code_simp+
  have c: "str_nat 0 = ''0''" "str_nat (Suc 0) = ''1''" by code_simp+
  have d: "[0..<2] = [0, Suc 0]" by (simp add: upt_rec)
  show ?thesis
    using chunk_ids_deterministic [of
      "\<lparr> uuid5 = (\<lambda>ns name. UUID (uuid_int ns + sum_list (map of_char name))),
        uuid_str = (\<lambda>u. str_nat (uuid_int u)),
        uuid_parse = (\<lambda>v. Inl ValueError),
        split_text = (\<lambda>s. [take 4 s, drop 4 s]),
        md5_hex = (\<lambda>s. s),
        json_dumps = (\<lambda>v. []),
        json_loads = (\<lambda>s. None),
        validate_int = (\<lambda>v. None),
        py_repr = (\<lambda>v. []),
        timestamp_error = (\<lambda>t. None) \<rparr>" "''abcdefgh''" "''doc''"]
    by (simp add: str_int_def a c d)
qed


section \<open>Properties of the retry helper\<close>

text \<open>
  A run of \<open>k\<close> attempts that all raise a retriable error consumes \<open>k\<close> elements of the
  attempt list: the operation is invoked \<open>k\<close> times, and each failed attempt that is not
  the last allowed one is followed by a sleep of \<open>delay * multiplier ^ attempt\<close>.
\<close>

lemma retry_loop_failures:
  fixes func :: "'s \<Rightarrow> (exc_kind + 'a) \<times> 's"
  defines "F \<equiv> (\<lambda>s. snd (func s))"
  assumes "\<forall>i < k. \<exists>e. fst (func ((F ^^ i) s)) = Inl e \<and> caught_by excs e"
  shows "retry_loop traced_eff (traced func) excs mr d m ([a ..< a + k] @ rest) lst (tr, s)
         = retry_loop traced_eff (traced func) excs mr d m rest
             (if k = 0 then lst
              else (case fst (func ((F ^^ (k - 1)) s)) of Inl e \<Rightarrow> Some e | Inr v \<Rightarrow> None))
             (tr @ concat (map (\<lambda>i. Invoked # (if int i < mr then [Slept (d * m ^ i)] else []))
                             [a ..< a + k]),
              (F ^^ k) s)"
  using assms(2)
proof (induction k arbitrary: a lst tr s)
  case 0
  then show ?case by simp
next
  case (Suc k)
  from Suc.prems[rule_format, of 0] obtain e where e: "fst (func s) = Inl e" "caught_by excs e"
    by auto
  define s' where "s' = F s"
  have f: "func s = (Inl e, s')"
    using e by (simp add: s'_def F_def prod_eq_iff)
  have shift: "(F ^^ Suc i) s = (F ^^ i) s'" for i
    by (simp add: s'_def funpow_swap1)
  have rest': "\<forall>i < k. \<exists>e. fst (func ((F ^^ i) s')) = Inl e \<and> caught_by excs e"
  proof (intro allI impI)
    fix i assume "i < k"
    then have "\<exists>e. fst (func ((F ^^ Suc i) s)) = Inl e \<and> caught_by excs e"
      using Suc.prems[rule_format, of "Suc i"] by blast
    then show "\<exists>e. fst (func ((F ^^ i) s')) = Inl e \<and> caught_by excs e"
      by (simp only: shift)
  qed
  have up: "[a ..< a + Suc k] = a # [Suc a ..< Suc a + k]"
    by (simp add: upt_rec)
  have step: "retry_loop traced_eff (traced func) excs mr d m (a # ([Suc a ..< Suc a + k] @ rest)) lst (tr, s)
     = retry_loop traced_eff (traced func) excs mr d m ([Suc a ..< Suc a + k] @ rest) (Some e)
         (tr @ (Invoked # (if int a < mr then [Slept (d * m ^ a)] else [])), s')"
    using f e(2) by (simp add: traced_def Let_def)
  have lastk: "(case fst (func ((F ^^ (Suc k - 1)) s)) of Inl e \<Rightarrow> Some e | Inr v \<Rightarrow> None)
        = (if k = 0 then Some e
           else (case fst (func ((F ^^ (k - 1)) s')) of Inl e \<Rightarrow> Some e | Inr v \<Rightarrow> None))"
  proof (cases k)
    case 0
    then show ?thesis using e by simp
  next
    case (Suc j)
    then show ?thesis using shift[of j] by simp
  qed
  show ?case
    unfolding up append_Cons step Suc.IH[OF rest'] lastk shift
    by simp
qed

text \<open>Attempts below \<open>max_retries\<close> are each followed by their sleep.\<close>

lemma sleeps_below:
  assumes "int k \<le> mr"
  shows "concat (map (\<lambda>i. Invoked # (if int i < mr then [Slept (d * m ^ i)] else [])) [0 ..< k])
         = concat (map (\<lambda>i. [Invoked, Slept (d * m ^ i)]) [0 ..< k])"
  using assms by (induction k) auto

text \<open>
  With \<open>N\<close> the effective \<open>max_retries\<close> (the argument, or the setting when the argument
  is \<^verbatim>\<open>None\<close> or zero): if the first \<open>k \<le> N\<close> attempts raise retriable errors and attempt
  \<open>k + 1\<close> returns, or raises an error outside the retriable classes, then that outcome
  is the result, after exactly \<open>k + 1\<close> invocations and the \<open>k\<close> sleeps between them.
\<close>

lemma retry_decided_at:
  fixes func :: "'s \<Rightarrow> (exc_kind + 'a) \<times> 's"
  defines "F \<equiv> (\<lambda>s. snd (func s))"
  assumes fails: "\<forall>i < k. \<exists>e. fst (func ((F ^^ i) s)) = Inl e \<and> caught_by excs e"
    and k: "int k \<le> or_default max_retries_arg (max_retries S)"
    and decided: "(\<exists>v. fst (func ((F ^^ k) s)) = Inr v)
                  \<or> (\<exists>e. fst (func ((F ^^ k) s)) = Inl e \<and> \<not> caught_by excs e)"
  shows "retry_with_backoff S traced_eff (traced func) max_retries_arg delay_arg mult_arg excs ([], s)
         = (fst (func ((F ^^ k) s)),
            (concat (map (\<lambda>i. [Invoked,
                 Slept (or_default delay_arg (retry_delay_seconds S)
                        * or_default mult_arg (retry_backoff_multiplier S) ^ i)]) [0 ..< k])
             @ [Invoked],
             (F ^^ Suc k) s))"
proof -
  let ?mr = "or_default max_retries_arg (max_retries S)"
  let ?d = "or_default delay_arg (retry_delay_seconds S)"
  let ?m = "or_default mult_arg (retry_backoff_multiplier S)"
  have split: "[0 ..< nat (?mr + 1)] = [0 ..< 0 + k] @ (k # [Suc k ..< nat (?mr + 1)])"
  proof -
    have "k < nat (?mr + 1)" using k by linarith
    then have "[0 ..< nat (?mr + 1)] = [0 ..< k] @ [k ..< nat (?mr + 1)]"
      by (metis le_add2 le_add_same_cancel2 less_imp_le_nat upt_add_eq_append le_Suc_ex)
    moreover have "[k ..< nat (?mr + 1)] = k # [Suc k ..< nat (?mr + 1)]"
      using \<open>k < nat (?mr + 1)\<close> by (simp add: upt_rec)
    ultimately show ?thesis by simp
  qed
  obtain r s' where fk: "func ((F ^^ k) s) = (r, s')" by (cases "func ((F ^^ k) s)")
  have s': "s' = (F ^^ Suc k) s" using fk by (simp add: F_def)
  have last_step: "retry_loop traced_eff (traced func) excs ?mr ?d ?m
            (k # [Suc k ..< nat (?mr + 1)]) lst (tr, (F ^^ k) s)
          = (r, (tr @ [Invoked], s'))" for lst tr
    using decided fk by (auto simp: traced_def)
  have "retry_loop traced_eff (traced func) excs ?mr ?d ?m
           ([0 ..< 0 + k] @ (k # [Suc k ..< nat (?mr + 1)])) None ([], s)
        = (r, (concat (map (\<lambda>i. [Invoked, Slept (?d * ?m ^ i)]) [0 ..< k]) @ [Invoked], s'))"
    unfolding retry_loop_failures[of k func s excs ?mr ?d ?m 0, folded F_def, OF fails] last_step
    using sleeps_below[OF k, of ?d ?m] by simp
  then show ?thesis
    unfolding retry_with_backoff_def Let_def using split fk s' by simp
qed

text \<open>
  If all \<open>N + 1\<close> attempts raise retriable errors, the error of the last attempt is
  raised after exactly \<open>N + 1\<close> invocations and \<open>N\<close> sleeps.
\<close>

lemma retry_exhausted:
  fixes func :: "'s \<Rightarrow> (exc_kind + 'a) \<times> 's"
  defines "F \<equiv> (\<lambda>s. snd (func s))"
  assumes N: "or_default max_retries_arg (max_retries S) = int N"
    and fails: "\<forall>i \<le> N. \<exists>e. fst (func ((F ^^ i) s)) = Inl e \<and> caught_by excs e"
  shows "retry_with_backoff S traced_eff (traced func) max_retries_arg delay_arg mult_arg excs ([], s)
         = (fst (func ((F ^^ N) s)),
            (concat (map (\<lambda>i. [Invoked,
                 Slept (or_default delay_arg (retry_delay_seconds S)
                        * or_default mult_arg (retry_backoff_multiplier S) ^ i)]) [0 ..< N])
             @ [Invoked],
             (F ^^ Suc N) s))"
proof -
  let ?d = "or_default delay_arg (retry_delay_seconds S)"
  let ?m = "or_default mult_arg (retry_backoff_multiplier S)"
  have fails': "\<forall>i < Suc N. \<exists>e. fst (func ((F ^^ i) s)) = Inl e \<and> caught_by excs e"
    using fails by (simp add: less_Suc_eq_le)
  from fails obtain e where e: "fst (func ((F ^^ N) s)) = Inl e" by blast
  have tr: "concat (map (\<lambda>i. Invoked # (if int i < int N then [Slept (?d * ?m ^ i)] else []))
                      [0 ..< Suc N])
            = concat (map (\<lambda>i. [Invoked, Slept (?d * ?m ^ i)]) [0 ..< N]) @ [Invoked]"
    using sleeps_below[of N "int N" ?d ?m] by simp
  have "retry_loop traced_eff (traced func) excs (int N) ?d ?m ([0 ..< 0 + Suc N] @ []) None ([], s)
        = (Inl e, (concat (map (\<lambda>i. [Invoked, Slept (?d * ?m ^ i)]) [0 ..< N]) @ [Invoked],
                   (F ^^ Suc N) s))"
    unfolding retry_loop_failures[of "Suc N" func s excs "int N" ?d ?m 0, folded F_def, OF fails']
    using e tr by (simp del: funpow.simps upt_Suc)
  then show ?thesis
    unfolding retry_with_backoff_def Let_def N
    using e by (simp add: nat_add_distrib del: funpow.simps upt_Suc)
qed

text \<open>
  Claim C5.  The claim asks for exactly \<open>N + 1\<close> invocations for every value \<open>N\<close> of
  \<^verbatim>\<open>max_retries\<close>.  \<^verbatim>\<open>max_retries = 0\<close> asks for a single attempt and no retry, but
  \<^verbatim>\<open>max_retries or settings.max_retries\<close> reads the zero as missing: with the default
  settings an operation that always fails is invoked four times, with sleeps of 1, 2
  and 4 seconds in between.
\<close>

theorem retry_zero_max_retries:
  "retry_with_backoff default_settings traced_eff
      (traced (\<lambda>n::nat. (Inl EmbeddingError :: exc_kind + unit, Suc n)))
      (Some 0) None None [AnyException] ([], 0)
   = (Inl EmbeddingError,
      ([Invoked, Slept 1, Invoked, Slept 2, Invoked, Slept 4, Invoked], 4))"
  by (simp add: retry_with_backoff_def default_settings_def or_default_def traced_def
        caught_by_def upt_rec)

section \<open>Properties of filtering and pagination\<close>

text \<open>
  Claim C4.  The confidence gate: no source at confidence zero; below confidence 0.3 or
  for an incomplete answer only the cited sources scoring at least 0.15; otherwise every
  source scoring at least 0.15, cited or not.  The kept sources are a subsequence of the
  input, so their relative order is that of the input.
\<close>

theorem filter_sources_gate:
  "(confidence = 0 \<longrightarrow> filter_sources sources confidence is_complete = [])
   \<and> (confidence \<noteq> 0 \<and> (confidence < 3 / 10 \<or> \<not> is_complete) \<longrightarrow>
        filter_sources sources confidence is_complete
          = filter (\<lambda>s. s_cited s \<and> 15 / 100 \<le> s_score s) sources)
   \<and> (confidence \<noteq> 0 \<and> \<not> (confidence < 3 / 10 \<or> \<not> is_complete) \<longrightarrow>
        filter_sources sources confidence is_complete
          = filter (\<lambda>s. 15 / 100 \<le> s_score s) sources)
   \<and> subseq (filter_sources sources confidence is_complete) sources"
  by (simp add: filter_sources_def MIN_SIMILARITY_SCORE_def)

text \<open>
  The three sources of the specification's confidence-gate scenario, scoring 0.5, 0.4
  and 0.1, the first one cited.
\<close>

theorem filter_sources_gate_witness:
  "filter_sources
      [\<lparr>s_document_id = JStr ''d1'', s_score = 5 / 10, s_version = JInt 1, s_cited = True\<rparr>,
       \<lparr>s_document_id = JStr ''d2'', s_score = 4 / 10, s_version = JInt 1, s_cited = False\<rparr>,
       \<lparr>s_document_id = JStr ''d3'', s_score = 1 / 10, s_version = JInt 1, s_cited = False\<rparr>]
      (2 / 10) True
     = [\<lparr>s_document_id = JStr ''d1'', s_score = 5 / 10, s_version = JInt 1, s_cited = True\<rparr>]
   \<and> filter_sources
      [\<lparr>s_document_id = JStr ''d1'', s_score = 5 / 10, s_version = JInt 1, s_cited = True\<rparr>,
       \<lparr>s_document_id = JStr ''d2'', s_score = 4 / 10, s_version = JInt 1, s_cited = False\<rparr>,
       \<lparr>s_document_id = JStr ''d3'', s_score = 1 / 10, s_version = JInt 1, s_cited = False\<rparr>]
      (9 / 10) True
     = [\<lparr>s_document_id = JStr ''d1'', s_score = 5 / 10, s_version = JInt 1, s_cited = True\<rparr>,
        \<lparr>s_document_id = JStr ''d2'', s_score = 4 / 10, s_version = JInt 1, s_cited = False\<rparr>]
   \<and> filter_sources
      [\<lparr>s_document_id = JStr ''d1'', s_score = 5 / 10, s_version = JInt 1, s_cited = True\<rparr>]
      0 True = []"
  using filter_sources_gate [of "2 / 10"
      "[\<lparr>s_document_id = JStr ''d1'', s_score = 5 / 10, s_version = JInt 1, s_cited = True\<rparr>,
       \<lparr>s_document_id = JStr ''d2'', s_score = 4 / 10, s_version = JInt 1, s_cited = False\<rparr>,
       \<lparr>s_document_id = JStr ''d3'', s_score = 1 / 10, s_version = JInt 1, s_cited = False\<rparr>]" True]
    filter_sources_gate [of "9 / 10"
      "[\<lparr>s_document_id = JStr ''d1'', s_score = 5 / 10, s_version = JInt 1, s_cited = True\<rparr>,
       \<lparr>s_document_id = JStr ''d2'', s_score = 4 / 10, s_version = JInt 1, s_cited = False\<rparr>,
       \<lparr>s_document_id = JStr ''d3'', s_score = 1 / 10, s_version = JInt 1, s_cited = False\<rparr>]" True]
    filter_sources_gate [of 0
      "[\<lparr>s_document_id = JStr ''d1'', s_score = 5 / 10, s_version = JInt 1, s_cited = True\<rparr>]" True]
  by simp

lemma take_drop_nth_map:
  "take n (drop k xs) = map ((!) xs) [k ..< min (k + n) (length xs)]"
proof (rule nth_equalityI)
  show "length (take n (drop k xs)) = length (map ((!) xs) [k ..< min (k + n) (length xs)])"
    by (simp add: min_def) arith
next
  fix i assume "i < length (take n (drop k xs))"
  then have i: "i < n" "k + i < length xs" by auto
  then have lt: "k + i < min (k + n) (length xs)" by simp
  then have "i < length [k ..< min (k + n) (length xs)]" by (auto simp: min_def)
  then have "map ((!) xs) [k ..< min (k + n) (length xs)] ! i
               = xs ! ([k ..< min (k + n) (length xs)] ! i)"
    by (rule nth_map)
  also have "[k ..< min (k + n) (length xs)] ! i = k + i"
    using lt by (rule nth_upt)
  finally have "map ((!) xs) [k ..< min (k + n) (length xs)] ! i = xs ! (k + i)" .
  with i show "take n (drop k xs) ! i = map ((!) xs) [k ..< min (k + n) (length xs)] ! i"
    by simp
qed

lemma ceil_div_pos:
  fixes t ps :: int
  assumes "1 \<le> ps"
  shows "(t + ps - 1) div ps = \<lceil>real_of_int t / real_of_int ps\<rceil>"
proof -
  define z where "z = (t + ps - 1) div ps"
  have eq: "t + ps - 1 = ps * z + (t + ps - 1) mod ps"
    unfolding z_def by simp
  have m: "0 \<le> (t + ps - 1) mod ps" "(t + ps - 1) mod ps < ps"
    using assms by auto
  have lo: "t \<le> ps * z" using eq m by linarith
  have hi: "ps * (z - 1) < t" using eq m by (simp add: algebra_simps)
  have pos: "0 < real_of_int ps" using assms by simp
  have "real_of_int t \<le> real_of_int (ps * z)" using lo by linarith
  then have a: "real_of_int t / real_of_int ps \<le> of_int z"
    using pos by (simp add: pos_divide_le_eq mult.commute)
  have "real_of_int (ps * (z - 1)) < real_of_int t" using hi by linarith
  then have "(real_of_int z - 1) * real_of_int ps < real_of_int t"
    by (simp add: mult.commute)
  then have b: "of_int z - 1 < real_of_int t / real_of_int ps"
    using pos by (simp only: pos_less_divide_eq)
  have "\<lceil>real_of_int t / real_of_int ps\<rceil> = z"
    using a b by (intro ceiling_unique) auto
  then show ?thesis by (simp add: z_def)
qed

text \<open>
  Claim C7.  For a page number and a page size of at least one, pagination returns the
  elements at the indices from \<open>(page - 1) * page_size\<close> up to, not including,
  \<open>page * page_size\<close> (cut at the end of the list), at most \<open>page_size\<close> of them;
  the metadata is present exactly when there are more sources than one page holds, and
  it then carries the ceiling of \<open>total / page_size\<close> as the page count,
  \<open>has_next\<close> exactly when \<open>page * page_size < total\<close> and \<open>has_prev\<close> exactly when
  \<open>page > 1\<close>.
\<close>

theorem paginate_sources_spec:
  assumes "1 \<le> pg" and "1 \<le> pg_size"
  shows "\<exists>sl meta. paginate_sources sources pg pg_size = Inr (sl, meta)
     \<and> sl = map ((!) sources)
              [nat ((pg - 1) * pg_size) ..< min (nat (pg * pg_size)) (length sources)]
     \<and> length sl \<le> nat pg_size
     \<and> (meta \<noteq> None \<longleftrightarrow> pg_size < int (length sources))
     \<and> (\<forall>p. meta = Some p \<longrightarrow>
            page p = pg \<and> page_size p = pg_size \<and> total p = int (length sources)
          \<and> total_pages p = \<lceil>real (length sources) / real_of_int pg_size\<rceil>
          \<and> (has_next p \<longleftrightarrow> pg * pg_size < int (length sources))
          \<and> (has_prev p \<longleftrightarrow> 1 < pg))"
proof -
  let ?n = "int (length sources)"
  let ?a = "(pg - 1) * pg_size"
  have a0: "0 \<le> ?a" using assms by simp
  have b0: "0 \<le> ?a + pg_size" using assms a0 by linarith
  have ab: "?a + pg_size = pg * pg_size" by (simp add: algebra_simps)
  have sl: "py_slice sources ?a (?a + pg_size)
            = take (nat pg_size) (drop (nat ?a) sources)"
  proof (cases "?a \<le> ?n")
    case True
    then have lo: "min ?a ?n = ?a" by simp
    have "take (nat (min (?a + pg_size) ?n - ?a)) (drop (nat ?a) sources)
          = take (nat pg_size) (drop (nat ?a) sources)"
      using True a0 assms by (auto simp: min_def)
    then show ?thesis
      using a0 b0 lo unfolding py_slice_def Let_def by (simp add: not_less)
  next
    case False
    then have "drop (nat ?a) sources = []" by simp
    moreover have "drop (nat (min ?a ?n)) sources = []" using False by (simp add: min_def)
    ultimately show ?thesis
      using a0 b0 unfolding py_slice_def Let_def by (simp add: not_less)
  qed
  have idx: "take (nat pg_size) (drop (nat ?a) sources)
        = map ((!) sources) [nat ?a ..< min (nat (pg * pg_size)) (length sources)]"
  proof -
    have "nat ?a + nat pg_size = nat (pg * pg_size)"
      using a0 assms ab by (metis nat_add_distrib zero_le_one order_trans)
    then show ?thesis by (simp add: take_drop_nth_map)
  qed
  have tp: "(?n + pg_size - 1) div pg_size = \<lceil>real (length sources) / real_of_int pg_size\<rceil>"
    using ceil_div_pos[OF assms(2), of ?n] by simp
  show ?thesis
    using assms sl idx tp ab
    unfolding paginate_sources_def Let_def
    by (cases "pg_size < ?n") auto
qed

theorem paginate_sources_spec_witness:
  "paginate_sources [10, 20, 30, 40, 50 :: nat] 2 2
     = Inr ([30, 40], Some \<lparr> page = 2, page_size = 2, total = 5, total_pages = 3,
                               has_next = True, has_prev = True \<rparr>)
   \<and> \<lceil>real (length [10, 20, 30, 40, 50 :: nat]) / real_of_int 2\<rceil> = 3"
  using paginate_sources_spec [of 2 2 "[10, 20, 30, 40, 50 :: nat]"]
  by (simp add: paginate_sources_def py_slice_def)

section \<open>Properties of context assembly\<close>

lemma length_py_join_snoc:
  "length (py_join sep (xs @ [y]))
     = length (py_join sep xs) + (if xs = [] then 0 else length sep) + length y"
  by (induction sep xs rule: py_join.induct) auto

lemma py_slice_prefix:
  "0 \<le> n \<Longrightarrow> py_slice xs 0 n = take (nat n) xs"
  by (auto simp: py_slice_def Let_def min_def)

lemma build_context_loop_spec:
  assumes "total_chars = int (length (py_join separator parts))"
  shows "\<exists>k \<le> length ms.
     (let whole = parts @ map content_of (take k ms);
          rem = MAX_CONTEXT_CHARS - int (length (py_join separator whole))
                  - (if whole = [] then 0 else 2)
      in (\<forall>j \<le> k. 0 < j \<longrightarrow> int (length (py_join separator (parts @ map content_of (take j ms)))) \<le> MAX_CONTEXT_CHARS)
        \<and> (k < length ms \<longrightarrow>
              int (length (py_join separator (parts @ map content_of (take (Suc k) ms))))
                > MAX_CONTEXT_CHARS)
        \<and> build_context_loop ms parts total_chars used =
            (if k < length ms \<and> rem > 100
             then (whole @ [take (nat rem) (content_of (ms ! k))], used @ take (Suc k) ms)
             else (whole, used @ take k ms)))"
  using assms
proof (induction ms arbitrary: parts total_chars used)
  case Nil
  then show ?case by simp
next
  case (Cons m ms)
  let ?c = "content_of m"
  let ?sep = "if parts \<noteq> [] then 2 else (0::int)"
  have jl: "int (length (py_join separator (parts @ [?c])))
            = total_chars + int (length ?c) + ?sep"
    using Cons.prems by (simp add: length_py_join_snoc separator_def)
  show ?case
  proof (cases "total_chars + int (length ?c) + ?sep \<le> MAX_CONTEXT_CHARS")
    case True
    from Cons.IH[of "total_chars + int (length ?c) + ?sep" "parts @ [?c]" "used @ [m]"] jl
    obtain k where k: "k \<le> length ms"
      and all: "\<forall>j \<le> k. 0 < j \<longrightarrow> int (length (py_join separator ((parts @ [?c]) @ map content_of (take j ms)))) \<le> MAX_CONTEXT_CHARS"
      and nxt: "k < length ms \<longrightarrow>
              int (length (py_join separator ((parts @ [?c]) @ map content_of (take (Suc k) ms))))
                > MAX_CONTEXT_CHARS"
      and res: "build_context_loop ms (parts @ [?c]) (total_chars + int (length ?c) + ?sep) (used @ [m]) =
            (let whole = (parts @ [?c]) @ map content_of (take k ms);
                 rem = MAX_CONTEXT_CHARS - int (length (py_join separator whole))
                  - (if whole = [] then 0 else 2) in
             if k < length ms \<and> rem > 100
             then (whole @ [take (nat rem) (content_of (ms ! k))], (used @ [m]) @ take (Suc k) ms)
             else (whole, (used @ [m]) @ take k ms))"
      by (auto simp: Let_def)
    have all': "\<forall>j \<le> Suc k. 0 < j \<longrightarrow> int (length (py_join separator (parts @ map content_of (take j (m # ms))))) \<le> MAX_CONTEXT_CHARS"
    proof (intro allI impI)
      fix j assume j: "j \<le> Suc k" "0 < j"
      then obtain j' where j': "j = Suc j'" "j' \<le> k" by (cases j) auto
      show "int (length (py_join separator (parts @ map content_of (take j (m # ms))))) \<le> MAX_CONTEXT_CHARS"
      proof (cases "j' = 0")
        case True
        then show ?thesis using j' jl \<open>total_chars + int (length ?c) + ?sep \<le> MAX_CONTEXT_CHARS\<close> by simp
      next
        case False
        then show ?thesis using all j' by simp
      qed
    qed
    show ?thesis
      apply (rule exI[of _ "Suc k"])
      using k all' nxt res True
      by (simp add: Let_def)
  next
    case False
    have rem: "MAX_CONTEXT_CHARS - total_chars - ?sep
          = MAX_CONTEXT_CHARS - int (length (py_join separator parts)) - (if parts = [] then 0 else 2)"
      using Cons.prems by simp
    show ?thesis
      apply (rule exI[of _ 0])
      using False jl rem Cons.prems
      by (auto simp: Let_def py_slice_prefix)
  qed
qed

text \<open>
  Claim C3.  Context assembly takes the first \<open>k\<close> matches whole, where \<open>k\<close> is the
  number of leading matches whose contents, joined with the two-character separator,
  fit in 32000 characters.  If a match is left, it does not fit whole; with \<open>rem\<close> the
  space left after the separator (no separator before the very first element), it is
  included as its prefix of exactly \<open>rem\<close> characters when \<open>rem > 100\<close> and not at all
  otherwise, and nothing after it is looked at.  The used matches are the matches taken
  whole followed by the truncated one, in order, and the context is never longer than
  32000 characters.
\<close>

theorem build_context_spec:
  "\<exists>k \<le> length matches.
     (let whole = map content_of (take k matches);
          rem = 32000 - int (length (py_join separator whole)) - (if k = 0 then 0 else 2)
      in length (fst (build_context matches)) \<le> 32000
        \<and> int (length (py_join separator whole)) \<le> 32000
        \<and> (k < length matches \<longrightarrow>
              32000 < int (length (py_join separator (map content_of (take (Suc k) matches))))
            \<and> (100 < rem \<longrightarrow> length (take (nat rem) (content_of (matches ! k))) = nat rem))
        \<and> build_context matches =
            (if k < length matches \<and> 100 < rem
             then (py_join separator (whole @ [take (nat rem) (content_of (matches ! k))]),
                   take (Suc k) matches)
             else (py_join separator whole, take k matches)))"
proof -
  have M: "MAX_CONTEXT_CHARS = 32000"
    by (simp add: MAX_CONTEXT_CHARS_def MAX_CONTEXT_TOKENS_def)
  have z: "(0::int) = int (length (py_join separator []))" by simp
  note L = build_context_loop_spec[OF z, of matches "[]", unfolded Let_def M append_Nil]
  from L obtain k where k: "k \<le> length matches"
    and fits: "\<forall>j \<le> k. 0 < j \<longrightarrow>
         int (length (py_join separator (map content_of (take j matches)))) \<le> 32000"
    and nxt: "k < length matches \<longrightarrow>
         32000 < int (length (py_join separator (map content_of (take (Suc k) matches))))"
    and res: "build_context_loop matches [] 0 [] =
       (if k < length matches \<and>
           100 < 32000 - int (length (py_join separator (map content_of (take k matches))))
                  - (if map content_of (take k matches) = [] then 0 else 2)
        then (map content_of (take k matches) @
               [take (nat (32000 - int (length (py_join separator (map content_of (take k matches))))
                  - (if map content_of (take k matches) = [] then 0 else 2)))
                  (content_of (matches ! k))], take (Suc k) matches)
        else (map content_of (take k matches), take k matches))"
    by blast
  let ?whole = "map content_of (take k matches)"
  let ?jl = "int (length (py_join separator ?whole))"
  let ?rem = "32000 - ?jl - (if k = 0 then 0 else 2)"
  have empty_iff: "?whole = [] \<longleftrightarrow> k = 0"
    using k by (cases matches) auto
  have fit_k: "?jl \<le> 32000"
  proof (cases "k = 0")
    case True then show ?thesis by simp
  next
    case False then show ?thesis using fits by simp
  qed
  have trunc: "length (take (nat ?rem) (content_of (matches ! k))) = nat ?rem"
    if "k < length matches"
  proof -
    have "take (Suc k) matches = take k matches @ [matches ! k]"
      using that by (simp add: take_Suc_conv_app_nth)
    then have "int (length (py_join separator (map content_of (take (Suc k) matches))))
        = ?jl + (if k = 0 then 0 else 2) + int (length (content_of (matches ! k)))"
      using empty_iff by (simp add: length_py_join_snoc separator_def)
    with nxt that have "?rem < int (length (content_of (matches ! k)))" by simp
    then show ?thesis by simp
  qed
  have res': "build_context matches =
            (if k < length matches \<and> 100 < ?rem
             then (py_join separator (?whole @ [take (nat ?rem) (content_of (matches ! k))]),
                   take (Suc k) matches)
             else (py_join separator ?whole, take k matches))"
    unfolding build_context_def res using empty_iff by simp
  have len: "length (fst (build_context matches)) \<le> 32000"
  proof (cases "k < length matches \<and> 100 < ?rem")
    case True
    then have "int (length (fst (build_context matches)))
        = ?jl + (if k = 0 then 0 else 2) + int (nat ?rem)"
      using res' trunc empty_iff by (simp add: length_py_join_snoc separator_def)
    then show ?thesis using True by simp
  next
    case False
    then have "fst (build_context matches) = py_join separator ?whole"
      using res' by auto
    then show ?thesis using fit_k by simp
  qed
  show ?thesis
    apply (rule exI[of _ k])
    using k len fit_k nxt trunc res'
    by (simp add: Let_def)
qed

theorem build_context_spec_witness:
  "build_context
     [\<lparr>m_id = ''p1'', m_content = Some (replicate 31000 CHR ''a''),
       m_document_id = JStr ''d1'', m_score = 9 / 10, m_version = JInt 1\<rparr>,
      \<lparr>m_id = ''p2'', m_content = Some (replicate 2000 CHR ''b''),
       m_document_id = JStr ''d2'', m_score = 8 / 10, m_version = JInt 1\<rparr>,
      \<lparr>m_id = ''p3'', m_content = Some ''c'',
       m_document_id = JStr ''d3'', m_score = 7 / 10, m_version = JInt 1\<rparr>]
   = (replicate 31000 CHR ''a'' @ separator @ replicate 998 CHR ''b'',
      [\<lparr>m_id = ''p1'', m_content = Some (replicate 31000 CHR ''a''),
        m_document_id = JStr ''d1'', m_score = 9 / 10, m_version = JInt 1\<rparr>,
       \<lparr>m_id = ''p2'', m_content = Some (replicate 2000 CHR ''b''),
        m_document_id = JStr ''d2'', m_score = 8 / 10, m_version = JInt 1\<rparr>])
   \<and> length (replicate 31000 CHR ''a'' @ separator @ replicate 998 CHR ''b'') = 32000"
  using build_context_spec
     [of "[\<lparr>m_id = ''p1'', m_content = Some (replicate 31000 CHR ''a''),
       m_document_id = JStr ''d1'', m_score = 9 / 10, m_version = JInt 1\<rparr>,
      \<lparr>m_id = ''p2'', m_content = Some (replicate 2000 CHR ''b''),
       m_document_id = JStr ''d2'', m_score = 8 / 10, m_version = JInt 1\<rparr>,
      \<lparr>m_id = ''p3'', m_content = Some ''c'',
       m_document_id = JStr ''d3'', m_score = 7 / 10, m_version = JInt 1\<rparr>]"]
  by (simp add: build_context_def content_of_def py_slice_def separator_def
        MAX_CONTEXT_CHARS_def MAX_CONTEXT_TOKENS_def Let_def)


end
